theory Spec2Isabelle
  imports Complex_Main
begin

section \<open>The recent-transactions card\<close>

text \<open>
  The card works on JavaScript numbers that hold integers: a transaction count, a page
  size and a page index read with \<open>parseInt\<close>. They are modelled as \<^typ>\<open>int\<close>. An
  optional parameter or an undefined query result is an \<^typ>\<open>int option\<close>.

  A thrown \<open>new Error(msg)\<close> of the component itself is \<open>Error msg\<close>. A collaborator
  (the RPC client, a helper of another module) answers with a value or fails with a
  reason, \<open>string + 'a\<close>; awaiting it turns the failure into \<open>Rejected reason\<close>, so an
  error of a collaborator is never taken for one the component throws itself. A function
  that may throw returns \<open>error + 'a\<close>.
\<close>

datatype error = Error string | Rejected string

definition await :: "string + 'a \<Rightarrow> error + 'a" where
  "await p = (case p of Inl reason \<Rightarrow> Inl (Rejected reason) | Inr v \<Rightarrow> Inr v)"

definition NUMBER_OF_TX_PER_PAGE :: int where
  "NUMBER_OF_TX_PER_PAGE = 20"

definition TRANSACTION_POLL_TIME_SECONDS :: int where
  "TRANSACTION_POLL_TIME_SECONDS = 10"

definition TRANSACTION_POLL_TIME :: int where
  "TRANSACTION_POLL_TIME = TRANSACTION_POLL_TIME_SECONDS * 1000"

subsection \<open>generateStartEndRange\<close>

record tx_range =
  startGatewayTxSeqNumber :: int
  endGatewayTxSeqNumber :: int

text \<open>
  \<open>pageNum && pageNum > 0 ? pageNum - 1 : 0\<close>: an absent page number and the number
  zero are falsy, so both take the else branch, as every negative number does.
\<close>

definition txPaged :: "int option \<Rightarrow> int" where
  "txPaged pageNum =
     (case pageNum of
        None \<Rightarrow> 0
      | Some p \<Rightarrow> if p \<noteq> 0 \<and> p > 0 then p - 1 else 0)"

definition generateStartEndRange :: "int \<Rightarrow> int \<Rightarrow> int option \<Rightarrow> tx_range" where
  "generateStartEndRange txCount txNum pageNum =
     (let endNumber = txCount - txNum * txPaged pageNum;
          startNumber = max (endNumber - txNum) 0
      in \<lparr>startGatewayTxSeqNumber = startNumber, endGatewayTxSeqNumber = endNumber\<rparr>)"

subsection \<open>getRecentTransactions\<close>

text \<open>
  The two asynchronous collaborators of the fetch: the RPC method
  \<open>getTransactionDigestsInRangeDeprecated\<close> and the helper \<open>getDataOnTxDigests\<close> of
  \<open>TxCardUtils\<close>. Each answers with a value or rejects. The fetch returns its outcome
  together with the requests it has issued, in order.
\<close>

datatype 'd request =
    GetTransactionDigestsInRange int int
  | GetDataOnTxDigests "'d list"

record ('d, 't) collaborators =
  getTransactionDigestsInRangeDeprecated :: "int \<Rightarrow> int \<Rightarrow> string + 'd list"
  getDataOnTxDigests :: "'d list \<Rightarrow> string + 't list"

definition getRecentTransactions ::
  "('d, 't) collaborators \<Rightarrow> int \<Rightarrow> int \<Rightarrow> int option \<Rightarrow> (error + 't list) \<times> 'd request list"
where
  "getRecentTransactions rpc totalTx txNum pageNum =
     (let r = generateStartEndRange totalTx txNum pageNum;
          s = startGatewayTxSeqNumber r;
          e = endGatewayTxSeqNumber r
      in if e < 0 then (Inl (Error ''Invalid transaction number''), [])
         else (case await (getTransactionDigestsInRangeDeprecated rpc s e) of
                 Inl err \<Rightarrow> (Inl err, [GetTransactionDigestsInRange s e])
               | Inr transactionDigests \<Rightarrow>
                   (await (getDataOnTxDigests rpc (rev transactionDigests)),
                    [GetTransactionDigestsInRange s e,
                     GetDataOnTxDigests (rev transactionDigests)])))"

subsection \<open>The page query of LatestTxCard\<close>

text \<open>
  \<open>Math.ceil(count / txPerPage)\<close>: the quotient is taken in the reals and rounded up
  afterwards, as the source does. A page size of zero gives an infinity in the source,
  which \<^typ>\<open>int\<close> does not have: the statements below about the maximum page are for a
  positive page size (the card starts from \<open>initialTxPerPage || 20\<close>).
\<close>

definition maxTxPage :: "int \<Rightarrow> int \<Rightarrow> int" where
  "maxTxPage count txPerPage = \<lceil>real_of_int count / real_of_int txPerPage\<rceil>"

definition pg :: "int \<Rightarrow> int \<Rightarrow> int \<Rightarrow> int" where
  "pg pageIndex count txPerPage =
     (if pageIndex > maxTxPage count txPerPage then maxTxPage count txPerPage
      else pageIndex)"

text \<open>
  The query function of \<open>transactionQuery\<close>; \<open>count\<close> is \<open>countQuery.data\<close>, undefined
  until the count has been fetched. \<open>!count\<close> holds for undefined and for zero.
\<close>

definition transactionQuery ::
  "('d, 't) collaborators \<Rightarrow> int option \<Rightarrow> int \<Rightarrow> int \<Rightarrow> (error + 't list) \<times> 'd request list"
where
  "transactionQuery rpc count txPerPage pageIndex =
     (case count of
        None \<Rightarrow> (Inl (Error ''No transactions found''), [])
      | Some c \<Rightarrow>
          if c = 0 then (Inl (Error ''No transactions found''), [])
          else getRecentTransactions rpc c txPerPage (Some (pg pageIndex c txPerPage)))"




text \<open>
  Modelled from the spec: \<open>getDataOnTxDigests\<close> lives in \<open>TxCardUtils\<close>, which is not
  part of the sources at hand. The spec (FeedFetcher, steps 5 and 6) has it hydrate every
  digest into a full record in one batched lookup that must not reorder: the records come
  back in the order of the digests handed in.
\<close>

definition getDataOnTxDigests_spec :: "('d \<Rightarrow> 't) \<Rightarrow> 'd list \<Rightarrow> string + 't list" where
  "getDataOnTxDigests_spec hydrate digests = Inr (map hydrate digests)"

subsection \<open>Pausing the poll\<close>

text \<open>
  \<open>countQuery\<close> is created with \<open>refetchInterval: paused ? false : TRANSACTION_POLL_TIME\<close>:
  the query library refetches the count each time a timer of that many milliseconds
  fires, and keeps no timer when the option is \<open>false\<close> (\<open>None\<close> here).
\<close>

datatype effect = CountRefetch | ToastSuccess string

definition refetchInterval :: "bool \<Rightarrow> int option" where
  "refetchInterval paused = (if paused then None else Some TRANSACTION_POLL_TIME)"

definition timerFires :: "bool \<Rightarrow> effect list" where
  "timerFires paused =
     (case refetchInterval paused of None \<Rightarrow> [] | Some ms \<Rightarrow> [CountRefetch])"

text \<open>
  \<open>handlePauseChange\<close> runs its effects with the value of \<open>paused\<close> it was rendered
  with and then flips the flag; the result is the effects in order and the new flag. The
  first toast reads \<open>TRANSACTION_POLL_TIME_SECONDS\<close>, which is 10, into its text.
\<close>

definition handlePauseChange :: "bool \<Rightarrow> effect list \<times> bool" where
  "handlePauseChange paused =
     ((if paused
       then [CountRefetch, ToastSuccess ''Auto-refreshing on - every 10 seconds'']
       else [ToastSuccess ''Auto-refresh paused'']),
      \<not> paused)"

text \<open>
  The two things that happen to the poll: the play/pause control is used, or the timer
  of the count query comes due. \<open>run\<close> collects the effects of a sequence of them.
\<close>

datatype event = PauseChanged | TimerDue

fun step :: "bool \<Rightarrow> event \<Rightarrow> effect list \<times> bool" where
  "step paused PauseChanged = handlePauseChange paused"
| "step paused TimerDue = (timerFires paused, paused)"

fun run :: "bool \<Rightarrow> event list \<Rightarrow> effect list" where
  "run paused [] = []"
| "run paused (ev # evs) = fst (step paused ev) @ run (snd (step paused ev)) evs"

section \<open>The owned-objects component\<close>

text \<open>
  The component throws nothing itself: every failure is a rejected promise of the RPC
  client or an exception of a helper it calls, so the collaborators answer with
  \<open>error + 'a\<close> directly. \<open>andThen\<close> is \<open>.then\<close> on a promise that may have been
  rejected, and sequencing inside a callback that may throw.
\<close>

definition andThen :: "error + 'a \<Rightarrow> ('a \<Rightarrow> error + 'b) \<Rightarrow> error + 'b" where
  "andThen p f = (case p of Inl e \<Rightarrow> Inl e | Inr v \<Rightarrow> f v)"

text \<open>\<open>Array.prototype.map\<close> with a callback that may throw: the first throw ends it.\<close>

fun map_throwing :: "('a \<Rightarrow> error + 'b) \<Rightarrow> 'a list \<Rightarrow> error + 'b list" where
  "map_throwing f [] = Inr []"
| "map_throwing f (x # xs) =
     andThen (f x) (\<lambda>y. andThen (map_throwing f xs) (\<lambda>ys. Inr (y # ys)))"

text \<open>
  A response of \<open>multiGetObjects\<close>: its status, and details that are an object (with its
  content, and with display metadata when it has a \<open>display\<close> key) or something else.
\<close>

datatype ('x, 'm) details = NotAnObject string | AnObject 'x "'m option"

record ('x, 'm) SuiObjectResponse =
  status :: string
  details :: "('x, 'm) details"

record DynamicFieldInfo =
  objectId :: string

datatype ('x, 'm) objects_response =
    PaginatedObjectsResponse "('x, 'm) SuiObjectResponse list"
  | DynamicFieldPage "DynamicFieldInfo list"

record ('x, 'm) JsonRpcProvider =
  getOwnedObjects :: "string \<Rightarrow> error + ('x, 'm) objects_response"
  getDynamicFields :: "string \<Rightarrow> error + ('x, 'm) objects_response"
  multiGetObjects :: "string list \<Rightarrow> error + ('x, 'm) SuiObjectResponse list"

text \<open>The helpers of the SDK and of the utility modules, each of which may throw.\<close>

record ('x, 'm) helpers =
  getObjectId :: "('x, 'm) SuiObjectResponse \<Rightarrow> error + string"
  parseObjectType :: "('x, 'm) SuiObjectResponse \<Rightarrow> error + string"
  Coin_isCoin :: "('x, 'm) SuiObjectResponse \<Rightarrow> error + bool"
  Coin_getBalance :: "('x, 'm) SuiObjectResponse \<Rightarrow> error + int option"
  parseImageURL :: "'m option \<Rightarrow> error + string"
  transformURL :: "string \<Rightarrow> error + string"
  extractName :: "'m option \<Rightarrow> error + string option"

text \<open>An entry of \<open>DataType\<close>; \<open>DATATYPE_DEFAULT\<close> leaves the last three fields out.\<close>

record owned_object =
  obj_id :: string
  obj_Type :: string
  obj_isCoin :: bool
  obj_display :: "string option"
  obj_balance :: "int option"
  obj_name :: "string option"

definition DATATYPE_DEFAULT :: "owned_object list" where
  "DATATYPE_DEFAULT =
     [\<lparr>obj_id = [], obj_Type = [], obj_isCoin = False,
       obj_display = None, obj_balance = None, obj_name = None\<rparr>]"

definition displayMeta :: "('x, 'm) SuiObjectResponse \<Rightarrow> 'm option" where
  "displayMeta resp = (case details resp of NotAnObject _ \<Rightarrow> None | AnObject _ d \<Rightarrow> d)"

text \<open>
  The callback of \<open>.map\<close>: the helpers are called in the order of the source; an empty
  \<open>url\<close> is falsy, and so is an empty or missing name.
\<close>

definition toOwnedObject :: "('x, 'm) helpers \<Rightarrow> ('x, 'm) SuiObjectResponse \<Rightarrow> error + owned_object" where
  "toOwnedObject h resp =
     andThen (parseImageURL h (displayMeta resp)) (\<lambda>url.
     andThen (getObjectId h resp) (\<lambda>i.
     andThen (parseObjectType h resp) (\<lambda>ty.
     andThen (Coin_isCoin h resp) (\<lambda>coin.
     andThen (if url \<noteq> [] then andThen (transformURL h url) (\<lambda>u. Inr (Some u)) else Inr None)
       (\<lambda>shown.
     andThen (Coin_getBalance h resp) (\<lambda>bal.
     andThen (extractName h (displayMeta resp)) (\<lambda>n.
       Inr \<lparr>obj_id = i, obj_Type = ty, obj_isCoin = coin, obj_display = shown,
            obj_balance = bal,
            obj_name = Some (case n of None \<Rightarrow> [] | Some v \<Rightarrow> if v \<noteq> [] then v else [])\<rparr>
     )))))))"

definition extractIds :: "('x, 'm) helpers \<Rightarrow> ('x, 'm) objects_response \<Rightarrow> error + string list" where
  "extractIds h objects =
     (case objects of
        PaginatedObjectsResponse data \<Rightarrow> map_throwing (getObjectId h) data
      | DynamicFieldPage data \<Rightarrow> Inr (map objectId data))"

definition onResults :: "('x, 'm) helpers \<Rightarrow> ('x, 'm) SuiObjectResponse list \<Rightarrow> error + owned_object list" where
  "onResults h results =
     map_throwing (toOwnedObject h) (filter (\<lambda>resp. status resp = ''Exists'') results)"

definition req :: "('x, 'm) JsonRpcProvider \<Rightarrow> string \<Rightarrow> bool \<Rightarrow> error + ('x, 'm) objects_response" where
  "req rpc ident byAddress =
     (if byAddress then getOwnedObjects rpc ident else getDynamicFields rpc ident)"

definition load :: "('x, 'm) JsonRpcProvider \<Rightarrow> ('x, 'm) helpers \<Rightarrow> string \<Rightarrow> bool \<Rightarrow> error + owned_object list" where
  "load rpc h ident byAddress =
     andThen (req rpc ident byAddress) (\<lambda>objects.
     andThen (extractIds h objects) (\<lambda>ids.
     andThen (multiGetObjects rpc ids) (\<lambda>results. onResults h results)))"

text \<open>
  The state of the component. The effect first clears both flags; when the promise chain
  settles, \<open>.catch\<close> sets \<open>isFail\<close>, and the last \<open>.then\<close> stores the records and sets
  \<open>isLoaded\<close>. \<open>useEffect\<close> gives the states the component goes through, in order.
\<close>

record component_state =
  results :: "owned_object list"
  isLoaded :: bool
  isFail :: bool

definition started :: "component_state \<Rightarrow> component_state" where
  "started s = s\<lparr>isFail := False, isLoaded := False\<rparr>"

definition settled :: "error + owned_object list \<Rightarrow> component_state \<Rightarrow> component_state" where
  "settled outcome s =
     (case outcome of
        Inl _ \<Rightarrow> s\<lparr>isFail := True\<rparr>
      | Inr records \<Rightarrow> s\<lparr>results := records, isLoaded := True\<rparr>)"

definition useEffect ::
  "('x, 'm) JsonRpcProvider \<Rightarrow> ('x, 'm) helpers \<Rightarrow> string \<Rightarrow> bool \<Rightarrow> component_state \<Rightarrow> component_state list"
where
  "useEffect rpc h ident byAddress s =
     [started s, settled (load rpc h ident byAddress) (started s)]"

datatype owned_view = NoOwnedObjects | OwnedObjectView "owned_object list" | LoadingText

definition OwnedObject :: "component_state \<Rightarrow> owned_view" where
  "OwnedObject s =
     (if isFail s then NoOwnedObjects
      else if isLoaded s then OwnedObjectView (results s)
      else LoadingText)"

definition initial_state :: component_state where
  "initial_state = \<lparr>results = DATATYPE_DEFAULT, isLoaded = False, isFail = False\<rparr>"

section \<open>Example collaborators\<close>

definition example_rpc :: "(string, string) collaborators" where
  "example_rpc =
     \<lparr>getTransactionDigestsInRangeDeprecated =
        (\<lambda>s e. if s = 0 \<and> e = 5 then Inr [''d1'', ''d2'', ''d3''] else Inl ''unavailable''),
      getDataOnTxDigests = getDataOnTxDigests_spec (\<lambda>d. ''tx-'' @ d)\<rparr>"

definition example_helpers :: "(string, string) helpers" where
  "example_helpers =
     \<lparr>getObjectId =
        (\<lambda>resp. case details resp of
                  NotAnObject i \<Rightarrow> Inr i
                | AnObject x _ \<Rightarrow> if x = [] then Inl (Rejected ''no id'') else Inr x),
      parseObjectType = (\<lambda>resp. Inr ''0x2::coin::Coin''),
      Coin_isCoin = (\<lambda>resp. Inr True),
      Coin_getBalance = (\<lambda>resp. Inr (Some 7)),
      parseImageURL = (\<lambda>m. case m of None \<Rightarrow> Inr [] | Some u \<Rightarrow> Inr u),
      transformURL = (\<lambda>u. Inr (''https://'' @ u)),
      extractName = (\<lambda>m. Inr None)\<rparr>"

definition exists_response :: "(string, string) SuiObjectResponse" where
  "exists_response = \<lparr>status = ''Exists'', details = AnObject ''0xa'' (Some ''img'')\<rparr>"

definition notfound_response :: "(string, string) SuiObjectResponse" where
  "notfound_response = \<lparr>status = ''NotFound'', details = NotAnObject ''0xb''\<rparr>"

definition unnamed_response :: "(string, string) SuiObjectResponse" where
  "unnamed_response = \<lparr>status = ''Exists'', details = AnObject [] None\<rparr>"

definition example_provider :: "(string, string) JsonRpcProvider" where
  "example_provider =
     \<lparr>getOwnedObjects =
        (\<lambda>owner. if owner = ''0x1'' then Inr (PaginatedObjectsResponse [exists_response, notfound_response])
                  else if owner = ''0x2'' then Inr (PaginatedObjectsResponse [unnamed_response])
                  else Inl (Rejected ''owner unknown'')),
      getDynamicFields =
        (\<lambda>parent. Inr (DynamicFieldPage [\<lparr>objectId = ''0xc''\<rparr>])),
      multiGetObjects =
        (\<lambda>ids. if ids = [''0xa'', ''0xb''] then Inr [exists_response, notfound_response]
                else Inl (Rejected ''multiGet failed''))\<rparr>"

definition example_record :: owned_object where
  "example_record =
     \<lparr>obj_id = ''0xa'', obj_Type = ''0x2::coin::Coin'', obj_isCoin = True,
      obj_display = Some ''https://img'', obj_balance = Some 7, obj_name = Some []\<rparr>"

section \<open>Properties of the recent-transactions card\<close>

subsection \<open>Auxiliary facts\<close>

lemma txPaged_max: "txPaged (Some p) = max (p - 1) 0"
  by (simp add: txPaged_def)

lemma pg_min: "pg pageIndex count txPerPage = min pageIndex (maxTxPage count txPerPage)"
  by (simp add: pg_def min_def)

lemma maxTxPage_pos:
  assumes "0 < count" and "0 < txPerPage"
  shows "1 \<le> maxTxPage count txPerPage"
proof -
  have "0 < real_of_int count / real_of_int txPerPage"
    using assms by simp
  then show ?thesis
    by (simp add: maxTxPage_def le_ceiling_iff)
qed

lemma maxTxPage_covers:
  assumes "0 < txPerPage"
  shows "txPerPage * (maxTxPage count txPerPage - 1) < count"
    and "count \<le> txPerPage * maxTxPage count txPerPage"
proof -
  let ?q = "real_of_int count / real_of_int txPerPage"
  have pos: "0 < real_of_int txPerPage"
    using assms by simp
  have "real_of_int (maxTxPage count txPerPage) - 1 < ?q"
    using ceiling_correct [of ?q] by (simp add: maxTxPage_def)
  then have "(real_of_int (maxTxPage count txPerPage) - 1) * real_of_int txPerPage < real_of_int count"
    using pos by (simp add: pos_less_divide_eq)
  then have "real_of_int ((maxTxPage count txPerPage - 1) * txPerPage) < real_of_int count"
    by simp
  then show "txPerPage * (maxTxPage count txPerPage - 1) < count"
    by (simp only: of_int_less_iff mult.commute)
  have "?q \<le> real_of_int (maxTxPage count txPerPage)"
    by (simp add: maxTxPage_def)
  then have "real_of_int count \<le> real_of_int (maxTxPage count txPerPage) * real_of_int txPerPage"
    using pos by (simp add: pos_divide_le_eq)
  then have "real_of_int count \<le> real_of_int (maxTxPage count txPerPage * txPerPage)"
    by simp
  then show "count \<le> txPerPage * maxTxPage count txPerPage"
    by (simp only: of_int_le_iff mult.commute)
qed

lemma generateStartEndRange_Some:
  "generateStartEndRange txCount txNum (Some p) =
     \<lparr>startGatewayTxSeqNumber = max (txCount - txNum * max (p - 1) 0 - txNum) 0,
      endGatewayTxSeqNumber = txCount - txNum * max (p - 1) 0\<rparr>"
  by (simp add: generateStartEndRange_def txPaged_max Let_def)

lemma getRecentTransactions_out_of_range:
  "endGatewayTxSeqNumber (generateStartEndRange totalTx txNum pageNum) < 0 \<Longrightarrow>
   getRecentTransactions rpc totalTx txNum pageNum =
     (Inl (Error ''Invalid transaction number''), [])"
  by (simp add: getRecentTransactions_def Let_def)

lemma await_not_Error: "await p \<noteq> Inl (Error msg)"
  by (simp add: await_def split: sum.splits)

lemma getRecentTransactions_in_range:
  "\<not> endGatewayTxSeqNumber (generateStartEndRange totalTx txNum pageNum) < 0 \<Longrightarrow>
   fst (getRecentTransactions rpc totalTx txNum pageNum) \<noteq> Inl (Error msg)"
  using await_not_Error [of "getDataOnTxDigests rpc ds" msg for ds]
  by (auto simp add: getRecentTransactions_def Let_def await_def split: sum.splits)

lemma getRecentTransactions_digests:
  assumes "\<not> endGatewayTxSeqNumber (generateStartEndRange totalTx txNum pageNum) < 0"
    and "getTransactionDigestsInRangeDeprecated rpc
           (startGatewayTxSeqNumber (generateStartEndRange totalTx txNum pageNum))
           (endGatewayTxSeqNumber (generateStartEndRange totalTx txNum pageNum)) = Inr ds"
  shows "getRecentTransactions rpc totalTx txNum pageNum =
     (await (getDataOnTxDigests rpc (rev ds)),
      [GetTransactionDigestsInRange
         (startGatewayTxSeqNumber (generateStartEndRange totalTx txNum pageNum))
         (endGatewayTxSeqNumber (generateStartEndRange totalTx txNum pageNum)),
       GetDataOnTxDigests (rev ds)])"
  using assms by (simp add: getRecentTransactions_def Let_def await_def)

lemma run_paused_timer: "run True (replicate n TimerDue) = []"
  by (induction n) (simp_all add: timerFires_def refetchInterval_def)

lemma run_running_timer: "run False (replicate n TimerDue) = replicate n CountRefetch"
  by (induction n) (simp_all add: timerFires_def refetchInterval_def)

lemma count_replicate_CountRefetch: "count_list (replicate n CountRefetch) CountRefetch = n"
  by (induction n) simp_all

subsection \<open>A zero count\<close>



subsection \<open>Clamping the page index\<close>

text \<open>
  Claim C2, as amended. For a positive count and a positive page size the maximum page
  \<open>ceil(count / txPerPage)\<close> is at least 1, the page handed to the fetch is the minimum
  of the requested page and that maximum, so it never exceeds the maximum, and it is at
  least 1 exactly when the requested page is. The clamp bounds the page from above only.
\<close>

theorem clamp_is_min_of_page_and_maxPage:
  assumes "0 < count" and "0 < txPerPage"
  shows "1 \<le> maxTxPage count txPerPage
     \<and> pg pageIndex count txPerPage = min pageIndex (max 1 (maxTxPage count txPerPage))
     \<and> pg pageIndex count txPerPage \<le> max 1 (maxTxPage count txPerPage)
     \<and> (1 \<le> pg pageIndex count txPerPage \<longleftrightarrow> 1 \<le> pageIndex)
     \<and> transactionQuery rpc (Some count) txPerPage pageIndex =
         getRecentTransactions rpc count txPerPage
           (Some (min pageIndex (max 1 (maxTxPage count txPerPage))))"
proof -
  have m: "1 \<le> maxTxPage count txPerPage"
    using assms by (rule maxTxPage_pos)
  then have mx: "max 1 (maxTxPage count txPerPage) = maxTxPage count txPerPage"
    by simp
  have p: "pg pageIndex count txPerPage = min pageIndex (maxTxPage count txPerPage)"
    by (rule pg_min)
  have q: "transactionQuery rpc (Some count) txPerPage pageIndex =
      getRecentTransactions rpc count txPerPage (Some (pg pageIndex count txPerPage))"
    using assms(1) by (simp add: transactionQuery_def)
  show ?thesis
    using m by (simp add: mx p q)
qed

theorem clamp_is_min_of_page_and_maxPage_witness:
  "(0::int) < 45 \<and> (0::int) < 20 \<and> maxTxPage 45 20 = 3 \<and> pg 7 45 20 = 3
   \<and> pg 7 45 20 = min 7 (max 1 (maxTxPage 45 20))
   \<and> fst (transactionQuery example_rpc (Some 45) 20 7) = Inr [''tx-d3'', ''tx-d2'', ''tx-d1'']"
proof -
  have h1: "(0::int) < 45" and h2: "(0::int) < 20"
    by simp_all
  have m: "maxTxPage 45 20 = 3"
    by (simp add: maxTxPage_def)
  have r: "fst (getRecentTransactions example_rpc 45 20 (Some 3)) = Inr [''tx-d3'', ''tx-d2'', ''tx-d1'']"
    by (simp add: getRecentTransactions_def generateStartEndRange_def txPaged_def
        example_rpc_def getDataOnTxDigests_spec_def await_def Let_def)
  show ?thesis
    using clamp_is_min_of_page_and_maxPage [OF h1 h2, of 7 example_rpc] r
    by (simp add: m)
qed

text \<open>
  The claim as first stated puts the page that is used into the interval from 1 to the
  maximum page for every requested page. A requested page of \<open>-3\<close>, as \<open>parseInt\<close>
  reads it from the query string, passes the clamp unchanged.
\<close>

theorem clamp_negative_page_counterexample:
  "pg (- 3) 45 20 = - 3
   \<and> transactionQuery example_rpc (Some 45) 20 (- 3) =
       getRecentTransactions example_rpc 45 20 (Some (- 3))
   \<and> \<not> (1 \<le> pg (- 3) 45 20 \<and> pg (- 3) 45 20 \<le> max 1 (maxTxPage 45 20))"
  by (simp add: pg_def maxTxPage_def transactionQuery_def)

subsection \<open>The window\<close>

text \<open>
  Claim C3. For every total count, page size and page index the window has
  \<open>end = totalCount - pageSize * max (pageIndex - 1) 0\<close> and
  \<open>start = max (end - pageSize) 0\<close>; the fetch fails with the error
  \<open>Invalid transaction number\<close> exactly when \<open>end < 0\<close>, and it has then issued no
  request.
\<close>

theorem window_formula_and_out_of_range_check:
  "generateStartEndRange totalCount pageSize (Some pageIndex) =
     \<lparr>startGatewayTxSeqNumber =
        max (totalCount - pageSize * max (pageIndex - 1) 0 - pageSize) 0,
      endGatewayTxSeqNumber = totalCount - pageSize * max (pageIndex - 1) 0\<rparr>
   \<and> (fst (getRecentTransactions rpc totalCount pageSize (Some pageIndex)) =
          Inl (Error ''Invalid transaction number'')
        \<longleftrightarrow> totalCount - pageSize * max (pageIndex - 1) 0 < 0)
   \<and> (getRecentTransactions rpc totalCount pageSize (Some pageIndex) =
          (Inl (Error ''Invalid transaction number''), [])
        \<longleftrightarrow> totalCount - pageSize * max (pageIndex - 1) 0 < 0)"
proof -
  let ?r = "generateStartEndRange totalCount pageSize (Some pageIndex)"
  let ?e = "totalCount - pageSize * max (pageIndex - 1) 0"
  have w: "?r = \<lparr>startGatewayTxSeqNumber = max (?e - pageSize) 0, endGatewayTxSeqNumber = ?e\<rparr>"
    by (rule generateStartEndRange_Some)
  then have e: "endGatewayTxSeqNumber ?r = ?e"
    by simp
  have below: "getRecentTransactions rpc totalCount pageSize (Some pageIndex) =
      (Inl (Error ''Invalid transaction number''), [])" if "?e < 0"
    using that e by (simp add: getRecentTransactions_out_of_range)
  have above: "fst (getRecentTransactions rpc totalCount pageSize (Some pageIndex)) \<noteq>
      Inl (Error ''Invalid transaction number'')" if "\<not> ?e < 0"
    using that e by (simp add: getRecentTransactions_in_range)
  have one: "fst (getRecentTransactions rpc totalCount pageSize (Some pageIndex)) =
      Inl (Error ''Invalid transaction number'') \<longleftrightarrow> ?e < 0"
    using below above by (cases "?e < 0") simp_all
  have two: "getRecentTransactions rpc totalCount pageSize (Some pageIndex) =
      (Inl (Error ''Invalid transaction number''), []) \<longleftrightarrow> ?e < 0"
    using below above by (cases "?e < 0") auto
  show ?thesis
    using w one two by blast
qed

theorem window_formula_and_out_of_range_check_witness:
  "generateStartEndRange 45 20 (Some 5) =
     \<lparr>startGatewayTxSeqNumber = 0, endGatewayTxSeqNumber = - 35\<rparr>
   \<and> getRecentTransactions example_rpc 45 20 (Some 5) =
       (Inl (Error ''Invalid transaction number''), [])
   \<and> fst (getRecentTransactions example_rpc 45 20 (Some 2)) \<noteq>
       Inl (Error ''Invalid transaction number'')"
  using window_formula_and_out_of_range_check [of 45 20 5 example_rpc]
    window_formula_and_out_of_range_check [of 45 20 2 example_rpc]
  by simp

text \<open>
  Claim C4. For a total count of at least 0, a positive page size and a page index of at
  least 1, the window computed from the clamped page satisfies
  \<open>0 \<le> start \<le> end \<le> totalCount\<close>.
\<close>

theorem clamped_window_within_count:
  assumes "0 \<le> totalCount" and "0 < pageSize" and "1 \<le> pageIndex"
  shows "0 \<le> startGatewayTxSeqNumber
            (generateStartEndRange totalCount pageSize (Some (pg pageIndex totalCount pageSize)))
     \<and> startGatewayTxSeqNumber
            (generateStartEndRange totalCount pageSize (Some (pg pageIndex totalCount pageSize)))
         \<le> endGatewayTxSeqNumber
            (generateStartEndRange totalCount pageSize (Some (pg pageIndex totalCount pageSize)))
     \<and> endGatewayTxSeqNumber
            (generateStartEndRange totalCount pageSize (Some (pg pageIndex totalCount pageSize)))
         \<le> totalCount"
proof -
  let ?m = "maxTxPage totalCount pageSize"
  let ?p = "pg pageIndex totalCount pageSize"
  let ?k = "max (?p - 1) 0"
  let ?e = "totalCount - pageSize * ?k"
  have k0: "0 \<le> ?k"
    by simp
  have "?p \<le> ?m"
    by (simp add: pg_min)
  then have "?k \<le> max (?m - 1) 0"
    by simp
  then have "pageSize * ?k \<le> pageSize * max (?m - 1) 0"
    using assms(2) by (simp add: mult_left_mono)
  moreover have "pageSize * max (?m - 1) 0 \<le> totalCount"
  proof (cases "?m - 1 \<le> 0")
    case True
    then show ?thesis using assms(1) by (simp add: max_def)
  next
    case False
    then have "max (?m - 1) 0 = ?m - 1"
      by simp
    then show ?thesis
      using maxTxPage_covers(1) [OF assms(2), of totalCount] by simp
  qed
  ultimately have e0: "0 \<le> ?e"
    by simp
  have "0 \<le> pageSize * ?k"
    using assms(2) k0 by simp
  then have ec: "?e \<le> totalCount"
    by simp
  have se: "max (?e - pageSize) 0 \<le> ?e"
    using e0 assms(2) by simp
  show ?thesis
    using e0 ec se by (simp add: generateStartEndRange_Some)
qed

theorem clamped_window_within_count_witness:
  "(0::int) \<le> 45 \<and> (0::int) < 20 \<and> (1::int) \<le> 9
   \<and> generateStartEndRange 45 20 (Some (pg 9 45 20)) =
       \<lparr>startGatewayTxSeqNumber = 0, endGatewayTxSeqNumber = 5\<rparr>
   \<and> (0::int) \<le> 0 \<and> (0::int) \<le> 5 \<and> (5::int) \<le> 45"
proof -
  have h1: "(0::int) \<le> 45" and h2: "(0::int) < 20" and h3: "(1::int) \<le> 9"
    by simp_all
  have v: "generateStartEndRange 45 20 (Some (pg 9 45 20)) =
      \<lparr>startGatewayTxSeqNumber = 0, endGatewayTxSeqNumber = 5\<rparr>"
    by (simp add: generateStartEndRange_def txPaged_def pg_def maxTxPage_def Let_def)
  show ?thesis
    using clamped_window_within_count [OF h1 h2 h3] v by simp
qed

text \<open>
  Claim C6. With 45 transactions and 20 per page the maximum page is 3; page 1 gives the
  window from 25 to 45 and page 3 the window from 0 to 5, and these are the bounds of the
  digest range the page query asks for.
\<close>

theorem scenario_45_transactions_20_per_page:
  "maxTxPage 45 20 = 3
   \<and> generateStartEndRange 45 20 (Some (pg 1 45 20)) =
       \<lparr>startGatewayTxSeqNumber = 25, endGatewayTxSeqNumber = 45\<rparr>
   \<and> generateStartEndRange 45 20 (Some (pg 3 45 20)) =
       \<lparr>startGatewayTxSeqNumber = 0, endGatewayTxSeqNumber = 5\<rparr>
   \<and> hd (snd (transactionQuery rpc (Some 45) 20 1)) = GetTransactionDigestsInRange 25 45
   \<and> hd (snd (transactionQuery rpc (Some 45) 20 3)) = GetTransactionDigestsInRange 0 5"
  by (simp add: transactionQuery_def getRecentTransactions_def generateStartEndRange_def
      txPaged_def pg_def maxTxPage_def Let_def split: sum.splits)

text \<open>
  Claim C10. The window computation returns a window for every input. For a count of at
  least 0 and a page number that is absent, zero or negative it is the window of page 1,
  \<open>end = txCount\<close> and \<open>start = max (txCount - txNum) 0\<close>, whatever the page size, and
  the fetch does not raise its out-of-range error.
\<close>

theorem window_of_absent_or_nonpositive_page:
  assumes "0 \<le> txCount"
    and "pageNum = None \<or> (\<exists>p. pageNum = Some p \<and> p \<le> 0)"
  shows "generateStartEndRange txCount txNum pageNum =
       \<lparr>startGatewayTxSeqNumber = max (txCount - txNum) 0, endGatewayTxSeqNumber = txCount\<rparr>
     \<and> generateStartEndRange txCount txNum pageNum = generateStartEndRange txCount txNum (Some 1)
     \<and> fst (getRecentTransactions rpc txCount txNum pageNum) \<noteq>
         Inl (Error ''Invalid transaction number'')"
proof -
  have k: "txPaged pageNum = 0"
    using assms(2) by (auto simp add: txPaged_def)
  have w: "generateStartEndRange txCount txNum pageNum =
      \<lparr>startGatewayTxSeqNumber = max (txCount - txNum) 0, endGatewayTxSeqNumber = txCount\<rparr>"
    by (simp add: generateStartEndRange_def k Let_def)
  have one: "generateStartEndRange txCount txNum (Some 1) =
      \<lparr>startGatewayTxSeqNumber = max (txCount - txNum) 0, endGatewayTxSeqNumber = txCount\<rparr>"
    by (simp add: generateStartEndRange_Some)
  have "\<not> endGatewayTxSeqNumber (generateStartEndRange txCount txNum pageNum) < 0"
    using assms(1) by (simp add: w)
  then have "fst (getRecentTransactions rpc txCount txNum pageNum) \<noteq>
      Inl (Error ''Invalid transaction number'')"
    by (rule getRecentTransactions_in_range)
  then show ?thesis
    using w one by simp
qed

theorem window_of_absent_or_nonpositive_page_witness:
  "generateStartEndRange 45 20 (Some (- 2)) =
       \<lparr>startGatewayTxSeqNumber = 25, endGatewayTxSeqNumber = 45\<rparr>
   \<and> generateStartEndRange 45 20 None =
       \<lparr>startGatewayTxSeqNumber = 25, endGatewayTxSeqNumber = 45\<rparr>
   \<and> generateStartEndRange 7 20 (Some 0) =
       \<lparr>startGatewayTxSeqNumber = 0, endGatewayTxSeqNumber = 7\<rparr>"
proof -
  have c: "(0::int) \<le> 45" and c': "(0::int) \<le> 7"
    by simp_all
  have neg: "Some (- 2) = None \<or> (\<exists>p::int. Some (- 2) = Some p \<and> p \<le> 0)"
    by simp
  have absent: "(None::int option) = None \<or> (\<exists>p::int. None = Some p \<and> p \<le> 0)"
    by simp
  have zero: "Some 0 = None \<or> (\<exists>p::int. Some 0 = Some p \<and> p \<le> 0)"
    by simp
  show ?thesis
    using window_of_absent_or_nonpositive_page [OF c neg, of 20 example_rpc]
      window_of_absent_or_nonpositive_page [OF c absent, of 20 example_rpc]
      window_of_absent_or_nonpositive_page [OF c' zero, of 20 example_rpc]
    by simp
qed

subsection \<open>Latest first\<close>

text \<open>
  Claim C5. When the transport answers the range request with the digests \<open>ds\<close>, the
  fetch hands the reversed list to the hydration and returns what the hydration returns.
  With the order-preserving hydration of the spec the records are
  \<open>rev (map hydrate ds)\<close>: the record at position \<open>i\<close> is the hydrated digest at
  position \<open>length ds - 1 - i\<close>, the latest first.
\<close>

theorem fetched_records_are_latest_first:
  assumes "0 \<le> endGatewayTxSeqNumber (generateStartEndRange totalTx txNum pageNum)"
    and "getTransactionDigestsInRangeDeprecated rpc
           (startGatewayTxSeqNumber (generateStartEndRange totalTx txNum pageNum))
           (endGatewayTxSeqNumber (generateStartEndRange totalTx txNum pageNum)) = Inr ds"
    and "getDataOnTxDigests rpc = getDataOnTxDigests_spec hydrate"
  shows "fst (getRecentTransactions rpc totalTx txNum pageNum) = Inr (rev (map hydrate ds))
     \<and> last (snd (getRecentTransactions rpc totalTx txNum pageNum)) = GetDataOnTxDigests (rev ds)
     \<and> (\<forall>i < length ds. rev (map hydrate ds) ! i = hydrate (ds ! (length ds - 1 - i)))"
proof -
  have "\<not> endGatewayTxSeqNumber (generateStartEndRange totalTx txNum pageNum) < 0"
    using assms(1) by simp
  note run = getRecentTransactions_digests [OF this assms(2)]
  have "fst (getRecentTransactions rpc totalTx txNum pageNum) = Inr (map hydrate (rev ds))"
    by (simp add: run assms(3) getDataOnTxDigests_spec_def await_def)
  then have records: "fst (getRecentTransactions rpc totalTx txNum pageNum) =
      Inr (rev (map hydrate ds))"
    by (simp add: rev_map)
  have request: "last (snd (getRecentTransactions rpc totalTx txNum pageNum)) =
      GetDataOnTxDigests (rev ds)"
    by (simp add: run)
  have order: "rev (map hydrate ds) ! i = hydrate (ds ! (length ds - 1 - i))"
    if "i < length ds" for i
    using that by (simp add: rev_nth)
  show ?thesis
    using records request order by blast
qed

theorem fetched_records_are_latest_first_witness:
  "fst (getRecentTransactions example_rpc 45 20 (Some 3)) = Inr [''tx-d3'', ''tx-d2'', ''tx-d1'']
   \<and> last (snd (getRecentTransactions example_rpc 45 20 (Some 3))) =
       GetDataOnTxDigests [''d3'', ''d2'', ''d1'']"
proof -
  have r: "generateStartEndRange 45 20 (Some 3) =
      \<lparr>startGatewayTxSeqNumber = 0, endGatewayTxSeqNumber = 5\<rparr>"
    by (simp add: generateStartEndRange_def txPaged_def Let_def)
  have h1: "0 \<le> endGatewayTxSeqNumber (generateStartEndRange 45 20 (Some 3))"
    by (simp add: r)
  have h2: "getTransactionDigestsInRangeDeprecated example_rpc
           (startGatewayTxSeqNumber (generateStartEndRange 45 20 (Some 3)))
           (endGatewayTxSeqNumber (generateStartEndRange 45 20 (Some 3))) =
         Inr [''d1'', ''d2'', ''d3'']"
    by (simp add: r example_rpc_def)
  have h3: "getDataOnTxDigests example_rpc = getDataOnTxDigests_spec (\<lambda>d. ''tx-'' @ d)"
    by (simp add: example_rpc_def)
  show ?thesis
    using fetched_records_are_latest_first [OF h1 h2 h3] by simp
qed

subsection \<open>Pause and resume\<close>

text \<open>
  Claim C9. Leaving the paused state calls the count refetch exactly once, as the first
  effect and while the timer is still off, and the timer is on afterwards, so that with
  \<open>n\<close> timer periods after the resume the count is fetched \<open>1 + n\<close> times.
  Entering the paused state calls no refetch and turns the timer off, so that the count
  is not fetched however many timer periods follow.
\<close>

theorem pause_and_resume_transitions:
  "handlePauseChange True =
     ([CountRefetch, ToastSuccess ''Auto-refreshing on - every 10 seconds''], False)
   \<and> count_list (fst (handlePauseChange True)) CountRefetch = 1
   \<and> hd (fst (handlePauseChange True)) = CountRefetch
   \<and> refetchInterval True = None
   \<and> refetchInterval (snd (handlePauseChange True)) = Some 10000
   \<and> count_list (run True (PauseChanged # replicate n TimerDue)) CountRefetch = 1 + n
   \<and> handlePauseChange False = ([ToastSuccess ''Auto-refresh paused''], True)
   \<and> CountRefetch \<notin> set (fst (handlePauseChange False))
   \<and> refetchInterval (snd (handlePauseChange False)) = None
   \<and> count_list (run False (PauseChanged # replicate n TimerDue)) CountRefetch = 0"
proof -
  have resume: "handlePauseChange True =
      ([CountRefetch, ToastSuccess ''Auto-refreshing on - every 10 seconds''], False)"
    by (simp add: handlePauseChange_def)
  have pause: "handlePauseChange False = ([ToastSuccess ''Auto-refresh paused''], True)"
    by (simp add: handlePauseChange_def)
  have interval: "refetchInterval True = None" "refetchInterval False = Some 10000"
    by (simp_all add: refetchInterval_def TRANSACTION_POLL_TIME_def
        TRANSACTION_POLL_TIME_SECONDS_def)
  have after_resume:
    "count_list (run True (PauseChanged # replicate n TimerDue)) CountRefetch = 1 + n"
    by (simp add: resume run_running_timer count_replicate_CountRefetch)
  have after_pause:
    "count_list (run False (PauseChanged # replicate n TimerDue)) CountRefetch = 0"
    by (simp add: pause run_paused_timer)
  show ?thesis
    using after_resume after_pause by (simp add: resume pause interval)
qed

section \<open>Properties of the owned-objects component\<close>

subsection \<open>Auxiliary facts\<close>

lemma andThen_Inl [simp]: "andThen (Inl e) f = Inl e"
  by (simp add: andThen_def)

lemma andThen_Inr [simp]: "andThen (Inr v) f = f v"
  by (simp add: andThen_def)

lemma map_throwing_all_succeed:
  "(\<forall>x \<in> set xs. f x = Inr (g x)) \<Longrightarrow> map_throwing f xs = Inr (map g xs)"
  by (induction xs) simp_all

lemma onResults_ignores_other_status:
  "status b \<noteq> ''Exists'' \<Longrightarrow> onResults h (xs @ b # ys) = onResults h (xs @ ys)"
  by (simp add: onResults_def)

lemma example_toOwnedObject: "toOwnedObject example_helpers exists_response = Inr example_record"
  by (simp add: toOwnedObject_def example_helpers_def exists_response_def displayMeta_def
      example_record_def)

lemma load_req_fails:
  "req rpc ident byAddress = Inl e \<Longrightarrow> load rpc h ident byAddress = Inl e"
  by (simp add: load_def)

lemma load_extractIds_fails:
  "req rpc ident byAddress = Inr objects \<Longrightarrow> extractIds h objects = Inl e \<Longrightarrow>
   load rpc h ident byAddress = Inl e"
  by (simp add: load_def)

lemma load_multiGetObjects_fails:
  "req rpc ident byAddress = Inr objects \<Longrightarrow> extractIds h objects = Inr ids \<Longrightarrow>
   multiGetObjects rpc ids = Inl e \<Longrightarrow> load rpc h ident byAddress = Inl e"
  by (simp add: load_def)

lemma load_onResults_fails:
  "req rpc ident byAddress = Inr objects \<Longrightarrow> extractIds h objects = Inr ids \<Longrightarrow>
   multiGetObjects rpc ids = Inr rs \<Longrightarrow> onResults h rs = Inl e \<Longrightarrow>
   load rpc h ident byAddress = Inl e"
  by (simp add: load_def)

lemma failed_load_states:
  assumes "load rpc h ident byAddress = Inl e"
  shows "useEffect rpc h ident byAddress s = [started s, (started s)\<lparr>isFail := True\<rparr>]"
  by (simp add: useEffect_def settled_def assms)

lemma OwnedObject_started: "OwnedObject (started s) = LoadingText"
  by (simp add: OwnedObject_def started_def)

lemma OwnedObject_failed: "OwnedObject ((started s)\<lparr>isFail := True\<rparr>) = NoOwnedObjects"
  by (simp add: OwnedObject_def)

lemma example_req_unknown: "req example_provider ''0x9'' True = Inl (Rejected ''owner unknown'')"
  by (simp add: req_def example_provider_def)

lemma example_extract_fails:
  "req example_provider ''0x2'' True = Inr (PaginatedObjectsResponse [unnamed_response])
   \<and> extractIds example_helpers (PaginatedObjectsResponse [unnamed_response]) =
       Inl (Rejected ''no id'')"
  by (simp add: req_def example_provider_def extractIds_def example_helpers_def
      unnamed_response_def)

lemma example_multiGet_fails:
  "req example_provider ''0x3'' False = Inr (DynamicFieldPage [\<lparr>objectId = ''0xc''\<rparr>])
   \<and> extractIds example_helpers (DynamicFieldPage [\<lparr>objectId = ''0xc''\<rparr>]) = Inr [''0xc'']
   \<and> multiGetObjects example_provider [''0xc''] = Inl (Rejected ''multiGet failed'')"
  by (simp add: req_def example_provider_def extractIds_def)

subsection \<open>The filter on existing objects\<close>

text \<open>
  Claim C7. Of a \<open>multiGetObjects\<close> response the entries with status \<open>Exists\<close>,
  and only they, are turned into records, in their order, and these records are what the
  component shows. An entry of another status changes nothing, wherever it stands in the
  response: no helper is applied to it, so dropping it cannot fail. A response of an
  existing entry followed by one of another status gives exactly one record, that of the
  existing entry.
\<close>

theorem only_existing_objects_are_kept:
  assumes "\<forall>resp \<in> set rs. status resp = ''Exists'' \<longrightarrow> toOwnedObject h resp = Inr (f resp)"
  shows "onResults h rs = Inr (map f (filter (\<lambda>resp. status resp = ''Exists'') rs))
     \<and> OwnedObject (settled (onResults h rs) (started s)) =
         OwnedObjectView (map f (filter (\<lambda>resp. status resp = ''Exists'') rs))
     \<and> (status b \<noteq> ''Exists'' \<longrightarrow>
          onResults h (xs @ b # ys) = onResults h (xs @ ys))
     \<and> (status a = ''Exists'' \<and> status b \<noteq> ''Exists'' \<and> rs = [a, b] \<longrightarrow>
          onResults h rs = Inr [f a])"
proof -
  let ?kept = "filter (\<lambda>resp. status resp = ''Exists'') rs"
  have "\<forall>resp \<in> set ?kept. toOwnedObject h resp = Inr (f resp)"
    using assms by simp
  then have kept: "onResults h rs = Inr (map f ?kept)"
    unfolding onResults_def by (rule map_throwing_all_succeed)
  have shown: "OwnedObject (settled (onResults h rs) (started s)) = OwnedObjectView (map f ?kept)"
    by (simp add: kept OwnedObject_def settled_def started_def)
  have dropped: "onResults h (xs @ b # ys) = onResults h (xs @ ys)" if "status b \<noteq> ''Exists''"
    using that by (rule onResults_ignores_other_status)
  have pair: "onResults h rs = Inr [f a]"
    if "status a = ''Exists'' \<and> status b \<noteq> ''Exists'' \<and> rs = [a, b]"
    using that kept by simp
  show ?thesis
    using kept shown dropped pair by blast
qed

theorem only_existing_objects_are_kept_witness:
  "onResults example_helpers [exists_response, notfound_response] = Inr [example_record]
   \<and> OwnedObject (settled (onResults example_helpers [exists_response, notfound_response])
        (started initial_state)) = OwnedObjectView [example_record]
   \<and> onResults example_helpers [notfound_response, exists_response] =
       onResults example_helpers [exists_response]"
proof -
  have h: "\<forall>resp \<in> set [exists_response, notfound_response].
      status resp = ''Exists'' \<longrightarrow>
      toOwnedObject example_helpers resp = Inr ((\<lambda>r. example_record) resp)"
    by (simp add: example_toOwnedObject notfound_response_def)
  have other: "status notfound_response \<noteq> ''Exists''"
    by (simp add: notfound_response_def)
  have kept: "filter (\<lambda>resp. status resp = ''Exists'') [exists_response, notfound_response] =
      [exists_response]"
    by (simp add: exists_response_def notfound_response_def)
  note facts = only_existing_objects_are_kept [OF h, of initial_state notfound_response "[]"
      "[exists_response]" exists_response]
  have records: "onResults example_helpers [exists_response, notfound_response] =
      Inr [example_record]"
    using facts [THEN conjunct1, unfolded kept] by simp
  have shown: "OwnedObject (settled (onResults example_helpers
      [exists_response, notfound_response]) (started initial_state)) =
      OwnedObjectView [example_record]"
    using facts [THEN conjunct2, THEN conjunct1, unfolded kept] by simp
  have dropped: "onResults example_helpers [notfound_response, exists_response] =
      onResults example_helpers [exists_response]"
    using facts [THEN conjunct2, THEN conjunct2, THEN conjunct1] other by simp
  show ?thesis
    using records shown dropped by (intro conjI)
qed

subsection \<open>Failure of a load\<close>

text \<open>
  Claim C8. Whichever step fails (the first request, the extraction of the ids, the
  multi-get, or building the records from its answer), the load fails as a whole: the
  component ends with \<open>isFail\<close> set and shows the failure text, and in no state of the
  run does it show a list of records.
\<close>

theorem any_error_collapses_to_fail:
  assumes "req rpc ident byAddress = Inl e
     \<or> (\<exists>objects. req rpc ident byAddress = Inr objects \<and> extractIds h objects = Inl e)
     \<or> (\<exists>objects ids. req rpc ident byAddress = Inr objects \<and> extractIds h objects = Inr ids
          \<and> multiGetObjects rpc ids = Inl e)
     \<or> (\<exists>objects ids rs. req rpc ident byAddress = Inr objects \<and> extractIds h objects = Inr ids
          \<and> multiGetObjects rpc ids = Inr rs \<and> onResults h rs = Inl e)"
  shows "load rpc h ident byAddress = Inl e
     \<and> isFail (last (useEffect rpc h ident byAddress s))
     \<and> OwnedObject (last (useEffect rpc h ident byAddress s)) = NoOwnedObjects
     \<and> (\<forall>t \<in> set (useEffect rpc h ident byAddress s). \<forall>shown. OwnedObject t \<noteq> OwnedObjectView shown)"
proof -
  have failed: "load rpc h ident byAddress = Inl e"
    using assms
    by (auto intro: load_req_fails load_extractIds_fails load_multiGetObjects_fails
        load_onResults_fails)
  note run = failed_load_states [OF failed, of s]
  have flag: "isFail (last (useEffect rpc h ident byAddress s))"
    by (simp add: run)
  have view: "OwnedObject (last (useEffect rpc h ident byAddress s)) = NoOwnedObjects"
    by (simp add: run OwnedObject_failed)
  have never: "OwnedObject t \<noteq> OwnedObjectView shown"
    if "t \<in> set (useEffect rpc h ident byAddress s)" for t shown
    using that OwnedObject_started [of s] OwnedObject_failed [of s]
    by (auto simp add: run)
  show ?thesis
    using failed flag view never by blast
qed

theorem any_error_collapses_to_fail_witness:
  "OwnedObject (last (useEffect example_provider example_helpers ''0x9'' True initial_state)) =
     NoOwnedObjects
   \<and> OwnedObject (last (useEffect example_provider example_helpers ''0x2'' True initial_state)) =
     NoOwnedObjects
   \<and> OwnedObject (last (useEffect example_provider example_helpers ''0x3'' False initial_state)) =
     NoOwnedObjects"
proof -
  have first: "OwnedObject (last (useEffect example_provider example_helpers ''0x9'' True
      initial_state)) = NoOwnedObjects"
    using any_error_collapses_to_fail [of example_provider "''0x9''" True
        "Rejected ''owner unknown''" example_helpers initial_state]
      example_req_unknown
    by blast
  have second: "OwnedObject (last (useEffect example_provider example_helpers ''0x2'' True
      initial_state)) = NoOwnedObjects"
    using any_error_collapses_to_fail [of example_provider "''0x2''" True
        "Rejected ''no id''" example_helpers initial_state]
      example_extract_fails
    by blast
  have third: "OwnedObject (last (useEffect example_provider example_helpers ''0x3'' False
      initial_state)) = NoOwnedObjects"
    using any_error_collapses_to_fail [of example_provider "''0x3''" False
        "Rejected ''multiGet failed''" example_helpers initial_state]
      example_multiGet_fails
    by blast
  show ?thesis
    using first second third by simp
qed

end
